theory Spec2Isabelle
  imports Complex_Main "HOL-Library.AList"
begin

section \<open>The TP/ICAP price WebSocket transport\<close>

text \<open>
  The transport of \<^verbatim>\<open>src/unnamed/part_001\<close> decodes the frames of a multiplexed quote feed.
  A JSON number is modelled as a rational (JSON cannot carry \<^verbatim>\<open>NaN\<close>, so a number is falsy
  exactly when it is zero), a JavaScript string as a list of characters (its code units),
  an optional property as an \<open>option\<close>, \<^verbatim>\<open>Date.now()\<close> as a natural number handed in by
  the caller.
\<close>

subsection \<open>Data\<close>

record ws_fvs =
  CCY1 :: "string option"
  CCY2 :: "string option"
  ACTIV_DATE :: "string option"
  TIMACT :: "string option"
  BID :: "rat option"
  ASK :: "rat option"
  MID_PRICE :: "rat option"

text \<open>
  \<^verbatim>\<open>WsMessage\<close>. The handler tests \<^verbatim>\<open>'msg' in message\<close>, \<^verbatim>\<open>!rec\<close> and \<^verbatim>\<open>!fvs\<close>, so each of the
  properties may be missing from a frame whatever the declared type says.
\<close>

record ws_message =
  msg :: "string option"
  pro :: "string option"
  rec :: "string option"
  sta :: "rat option"
  img :: "rat option"
  fvs :: "ws_fvs option"

record generate_price_options =
  streamName :: string
  sourceName :: string

record adapter_settings =
  WS_API_ENDPOINT :: string
  WS_API_USERNAME :: string
  WS_API_PASSWORD :: string
  CACHE_MAX_AGE :: nat

text \<open>Request parameters are an object of string properties, kept in insertion order.\<close>

type_synonym params = "(string \<times> string) list"

record 'v cache_entry =
  entry_value :: 'v
  entry_ttl :: nat

type_synonym 'v cache = "string \<rightharpoonup> 'v cache_entry"

record 'v response_cache =
  adapterName :: string
  endpointName :: string
  adapterSettings :: adapter_settings
  cache :: "'v cache"

record 'v transport =
  name :: string
  subscriptionSet :: "params list"
  responseCache :: "'v response_cache"

text \<open>The argument object of the framework's \<^verbatim>\<open>calculateCacheKey\<close>.\<close>

record cache_key_args =
  key_transportName :: string
  key_data :: params
  key_adapterName :: string
  key_endpointName :: string
  key_adapterSettings :: adapter_settings

record timestamps =
  providerDataReceivedUnixMs :: nat
  providerDataStreamEstablishedUnixMs :: "nat option"
  providerIndicatedTimeUnixMs :: "nat option"

record provider_response =
  result :: rat
  data_result :: rat
  response_timestamps :: timestamps

record provider_result =
  tick_params :: params
  response :: provider_response

datatype ws_error = DecimalError

subsection \<open>String primitives\<close>

text \<open>\<^verbatim>\<open>s.slice(a, b)\<close> for constant \<open>0 \<le> a \<le> b\<close>: both ends are clipped to the length.\<close>

definition slice :: "nat \<Rightarrow> nat \<Rightarrow> string \<Rightarrow> string" where
  "slice a b s = take (b - a) (drop a s)"

fun startsWith :: "string \<Rightarrow> string \<Rightarrow> bool" where
  "startsWith s [] = True"
| "startsWith [] (c # cs) = False"
| "startsWith (d # ds) (c # cs) = (d = c \<and> startsWith ds cs)"

text \<open>\<^verbatim>\<open>s.includes(t)\<close>: \<open>t\<close> occurs in \<open>s\<close> as a contiguous substring.\<close>

fun str_includes :: "string \<Rightarrow> string \<Rightarrow> bool" where
  "str_includes [] t = (t = [])"
| "str_includes (d # ds) t = (startsWith (d # ds) t \<or> str_includes ds t)"

subsection \<open>The cache capability\<close>

text \<open>
  Modelled from the spec: the response cache's \<^verbatim>\<open>setTTL(fingerprint, ttl)\<close>, which belongs to
  the adapter framework and is not among the sources. It extends an existing entry's
  time-to-live to the given duration and leaves the stored value untouched; for a
  fingerprint with no entry it is a no-op and no entry materializes.
\<close>

definition setTTL :: "'v cache \<Rightarrow> string \<Rightarrow> nat \<Rightarrow> 'v cache" where
  "setTTL c key ttl =
     (case c key of
        None \<Rightarrow> c
      | Some e \<Rightarrow> c(key \<mapsto> e\<lparr>entry_ttl := ttl\<rparr>))"

subsection \<open>updateTTL\<close>

text \<open>
  \<^verbatim>\<open>updateTTL\<close> reads the subscription set and, for each entry in turn, computes the cache
  key and sets the TTL of that key to \<^verbatim>\<open>CACHE_MAX_AGE\<close>. The framework's \<^verbatim>\<open>calculateCacheKey\<close>
  is a parameter. The loop body is \<open>updateTTL_step\<close>, the \<^verbatim>\<open>forEach\<close> is the fold.
\<close>

definition updateTTL_key :: "(cache_key_args \<Rightarrow> string) \<Rightarrow> 'v transport \<Rightarrow> params \<Rightarrow> string" where
  "updateTTL_key calculateCacheKey tr param =
     calculateCacheKey \<lparr>
       key_transportName = name tr,
       key_data = param,
       key_adapterName = adapterName (responseCache tr),
       key_endpointName = endpointName (responseCache tr),
       key_adapterSettings = adapterSettings (responseCache tr) \<rparr>"

definition updateTTL_step ::
  "(cache_key_args \<Rightarrow> string) \<Rightarrow> 'v transport \<Rightarrow> 'v cache \<Rightarrow> params \<Rightarrow> 'v cache" where
  "updateTTL_step calculateCacheKey tr c param =
     setTTL c (updateTTL_key calculateCacheKey tr param)
       (CACHE_MAX_AGE (adapterSettings (responseCache tr)))"

definition updateTTL :: "(cache_key_args \<Rightarrow> string) \<Rightarrow> 'v transport \<Rightarrow> 'v transport" where
  "updateTTL calculateCacheKey tr =
     (let sSet = subscriptionSet tr
      in tr\<lparr>responseCache := (responseCache tr)
              \<lparr>cache := foldl (updateTTL_step calculateCacheKey tr) (cache (responseCache tr)) sSet\<rparr>\<rparr>)"

subsection \<open>The message handler\<close>

text \<open>
  \<^verbatim>\<open>new Decimal(ASK).add(BID).div(2).toNumber()\<close>. The constructor and \<^verbatim>\<open>add\<close> throw on
  \<^verbatim>\<open>undefined\<close>. The arithmetic of the decimal library is idealised as rational arithmetic.
\<close>

fun decimal_midpoint :: "rat option \<Rightarrow> rat option \<Rightarrow> ws_error + rat" where
  "decimal_midpoint (Some ask) (Some bid) = Inr ((ask + bid) / 2)"
| "decimal_midpoint _ _ = Inl DecimalError"

text \<open>\<^verbatim>\<open>MID_PRICE || ...\<close>: the right operand is evaluated when \<^verbatim>\<open>MID_PRICE\<close> is missing or zero.\<close>

fun compute_result :: "ws_fvs \<Rightarrow> ws_error + rat" where
  "compute_result f =
     (case MID_PRICE f of
        Some m \<Rightarrow> if m \<noteq> 0 then Inr m else decimal_midpoint (ASK f) (BID f)
      | None \<Rightarrow> decimal_midpoint (ASK f) (BID f))"

definition isNum :: "rat option \<Rightarrow> bool" where
  "isNum i = (i \<noteq> None)"

text \<open>
  The handler returns the provider results; the heartbeat branch starts \<^verbatim>\<open>updateTTL\<close>, whose
  effect on the transport is returned with them. \<open>now\<close> is \<^verbatim>\<open>Date.now()\<close>, \<open>established\<close> the
  module variable \<^verbatim>\<open>providerDataStreamEstablishedUnixMs\<close>.
\<close>

definition price_tick ::
  "generate_price_options \<Rightarrow> nat \<Rightarrow> nat option \<Rightarrow> string \<Rightarrow> rat \<Rightarrow> provider_result" where
  "price_tick generatePriceOptions now established r res =
     (let base = slice 5 8 r; quote = slice 8 11 r; source = slice 15 18 r
      in \<lparr> tick_params =
              AList.update (sourceName generatePriceOptions) source
                [(''base'', base), (''quote'', quote)],
            response = \<lparr>
              result = res,
              data_result = res,
              response_timestamps = \<lparr>
                providerDataReceivedUnixMs = now,
                providerDataStreamEstablishedUnixMs = established,
                providerIndicatedTimeUnixMs = None \<rparr> \<rparr> \<rparr>)"

text \<open>The handler once \<^verbatim>\<open>fvs\<close> and \<^verbatim>\<open>rec\<close> are known to be there and \<^verbatim>\<open>sta\<close> to be \<open>1\<close>.\<close>

definition handle_sub ::
  "generate_price_options \<Rightarrow> (cache_key_args \<Rightarrow> string) \<Rightarrow> nat \<Rightarrow> nat option \<Rightarrow>
   'v transport \<Rightarrow> string \<Rightarrow> ws_fvs \<Rightarrow> ws_error + (provider_result list \<times> 'v transport)" where
  "handle_sub generatePriceOptions calculateCacheKey now established tpTransport r f =
     (if str_includes r ''HBHHH'' \<and> slice 22 24 r = streamName generatePriceOptions
      then Inr ([], updateTTL calculateCacheKey tpTransport)
      else if slice 31 34 r \<noteq> streamName generatePriceOptions
      then Inr ([], tpTransport)
      else if \<not> isNum (MID_PRICE f) \<and> \<not> (isNum (BID f) \<and> isNum (ASK f))
      then Inr ([], tpTransport)
      else
        case compute_result f of
          Inl e \<Rightarrow> Inl e
        | Inr res \<Rightarrow> Inr ([price_tick generatePriceOptions now established r res], tpTransport))"

definition message_handler ::
  "generate_price_options \<Rightarrow> (cache_key_args \<Rightarrow> string) \<Rightarrow> nat \<Rightarrow> nat option \<Rightarrow>
   'v transport \<Rightarrow> ws_message \<Rightarrow> ws_error + (provider_result list \<times> 'v transport)" where
  "message_handler generatePriceOptions calculateCacheKey now established tpTransport message =
     (if msg message = None \<or> msg message = Some ''auth'' then Inr ([], tpTransport)
      else
        case fvs message of
          None \<Rightarrow> Inr ([], tpTransport)
        | Some f \<Rightarrow>
            (case rec message of
               None \<Rightarrow> Inr ([], tpTransport)
             | Some r \<Rightarrow>
                 if r = [] \<or> sta message \<noteq> Some 1 then Inr ([], tpTransport)
                 else handle_sub generatePriceOptions calculateCacheKey now established
                        tpTransport r f))"

subsection \<open>The open handler\<close>

text \<open>
  The open handler returns a promise, registers a listener for \<^verbatim>\<open>message\<close> events on the
  connection and sends the authentication directive. The promise is resolved by the
  listener alone; the listener stays registered after that. The state below is what the
  handler and its listener share: whether the promise has been resolved, the module
  variable \<^verbatim>\<open>providerDataStreamEstablishedUnixMs\<close> (it keeps the value of an earlier
  connection until the listener overwrites it) and the frames sent.
\<close>

record auth_options =
  auth_msg :: string
  auth_user :: string
  auth_pass :: string
  auth_mode :: string

record open_state =
  resolved :: bool
  establishedUnixMs :: "nat option"
  sent :: "auth_options list"

definition open_handler :: "adapter_settings \<Rightarrow> nat option \<Rightarrow> open_state" where
  "open_handler settings established =
     \<lparr> resolved = False,
       establishedUnixMs = established,
       sent = [\<lparr> auth_msg = ''auth'',
                 auth_user = WS_API_USERNAME settings,
                 auth_pass = WS_API_PASSWORD settings,
                 auth_mode = ''broadcast'' \<rparr>] \<rparr>"

text \<open>
  A message event is the time at which it is handled and what \<^verbatim>\<open>JSON.parse\<close> makes of its
  data: \<open>None\<close> when parsing or destructuring throws, which ends that run of the listener
  and leaves the promise as it was.
\<close>

type_synonym message_event = "nat \<times> ws_message option"

definition is_auth_ack :: "message_event \<Rightarrow> bool" where
  "is_auth_ack ev =
     (case snd ev of
        None \<Rightarrow> False
      | Some m \<Rightarrow> msg m = Some ''auth'' \<and> sta m = Some 1)"

definition open_listener :: "open_state \<Rightarrow> message_event \<Rightarrow> open_state" where
  "open_listener s ev =
     (case snd ev of
        None \<Rightarrow> s
      | Some m \<Rightarrow>
          if msg m = Some ''auth'' \<and> sta m = Some 1
          then s\<lparr>establishedUnixMs := Some (fst ev), resolved := True\<rparr>
          else s)"

text \<open>The connection after the events \<open>evs\<close> have been delivered, oldest first.\<close>

definition open_run :: "adapter_settings \<Rightarrow> nat option \<Rightarrow> message_event list \<Rightarrow> open_state" where
  "open_run settings established evs = foldl open_listener (open_handler settings established) evs"

section \<open>The balance endpoint\<close>

text \<open>
  \<^verbatim>\<open>src/amberdata/src/endpoint/balance.ts\<close>. The predicates \<^verbatim>\<open>isCoinType\<close> and \<^verbatim>\<open>isChainType\<close>,
  the table \<^verbatim>\<open>BLOCKCHAINS\<close> (read through \<^verbatim>\<open>Requester.toVendorName\<close>), \<^verbatim>\<open>getBaseURL\<close> and the HTTP
  call \<^verbatim>\<open>Requester.request\<close> are declared elsewhere and are parameters here; the HTTP call
  answers with the response's data or fails with a reason.
\<close>

subsection \<open>Data\<close>

record Address =
  address :: "string option"
  coin :: "string option"
  chain :: "string option"

text \<open>The balance of an account: the number \<open>0\<close>, or \<^verbatim>\<open>payload.value\<close> of a response's data.\<close>

datatype 'd balance_value = Zero | Payload_value 'd

record 'd Account =
  acc_address :: "string option"
  acc_coin :: "string option"
  acc_chain :: "string option"
  balance :: "'d balance_value"

record 'd ResponseWithResult =
  bal_response :: "'d option"
  bal_result :: "'d Account"
  warning :: "string option"

record req_config =
  baseURL :: string
  url :: string
  x_amberdata_blockchain_id :: string

text \<open>What a promise is rejected with: a thrown string, or the failure of the HTTP call.\<close>

datatype balance_error = Thrown string | RequestFailed string

record 'd balance_env =
  isCoinType :: "string \<Rightarrow> bool"
  isChainType :: "string \<Rightarrow> bool"
  toVendorName :: "string \<Rightarrow> string"
  getBaseURL :: string
  request :: "req_config \<Rightarrow> string + 'd"

definition WARNING_NO_OPERATION_COIN :: string where
  "WARNING_NO_OPERATION_COIN = ''No Operation: unsupported coin''"

definition WARNING_NO_OPERATION_TESTNET :: string where
  "WARNING_NO_OPERATION_TESTNET = ''No Operation: 'testnet' is only supported on 'eth'' @ [CHR 0x27]"

definition WARNING_NO_OPERATION_CHAIN :: string where
  "WARNING_NO_OPERATION_CHAIN =
     ''No Operation: invalid chain parameter, must be one of 'mainnet' or 'testnet'' @ [CHR 0x27]"

definition WARNING_NO_OPERATION_MISSING_ADDRESS :: string where
  "WARNING_NO_OPERATION_MISSING_ADDRESS = ''No Operation: address param is missing''"

subsection \<open>Operations\<close>

definition getBalanceURI :: "string \<Rightarrow> string" where
  "getBalanceURI a = ''/api/v2/addresses/'' @ a @ ''/account-balances/latest''"

definition getBlockchainHeader :: "(string \<Rightarrow> string) \<Rightarrow> string \<Rightarrow> string \<Rightarrow> balance_error + string" where
  "getBlockchainHeader vendorName chain' coin' =
     (let network = vendorName coin'
      in if chain' = ''testnet''
         then (if network = ''ethereum'' then Inr ''ethereum-rinkeby''
               else Inl (Thrown WARNING_NO_OPERATION_TESTNET))
         else Inr (network @ ''-mainnet''))"

text \<open>\<^verbatim>\<open>!s\<close> for an optional string property: missing or empty.\<close>

fun falsy :: "string option \<Rightarrow> bool" where
  "falsy None = True"
| "falsy (Some s) = (s = [])"

text \<open>\<^verbatim>\<open>if (!x) x = d\<close>, read back.\<close>

fun or_default :: "string option \<Rightarrow> string \<Rightarrow> string" where
  "or_default None d = d"
| "or_default (Some s) d = (if s = [] then d else s)"

text \<open>\<^verbatim>\<open>{ ...addr, balance: b }\<close>\<close>

definition with_balance :: "Address \<Rightarrow> 'd balance_value \<Rightarrow> 'd Account" where
  "with_balance addr b =
     \<lparr> acc_address = address addr, acc_coin = coin addr, acc_chain = chain addr, balance = b \<rparr>"

text \<open>
  The callback mapped over the addresses. \<open>warnedResponse\<close> copies the address before the
  defaults are assigned; the assignments \<^verbatim>\<open>addr.coin = 'btc'\<close> and \<^verbatim>\<open>addr.chain = 'mainnet'\<close>
  are the updates \<open>addr1\<close> and \<open>addr2\<close>. \<open>Inl\<close> is a rejected promise.
\<close>

definition getBalance :: "'d balance_env \<Rightarrow> Address \<Rightarrow> balance_error + 'd ResponseWithResult" where
  "getBalance env addr =
     (let warnedResponse =
            \<lparr> bal_response = None, bal_result = with_balance addr Zero, warning = None \<rparr>
      in if falsy (address addr)
         then Inr (warnedResponse\<lparr>warning := Some WARNING_NO_OPERATION_MISSING_ADDRESS\<rparr>)
         else
           let addr1 = addr\<lparr>coin := Some (or_default (coin addr) ''btc'')\<rparr>
           in if \<not> isCoinType env (or_default (coin addr) ''btc'')
              then Inr (warnedResponse\<lparr>warning := Some WARNING_NO_OPERATION_COIN\<rparr>)
              else
                let addr2 = addr1\<lparr>chain := Some (or_default (chain addr1) ''mainnet'')\<rparr>
                in if \<not> isChainType env (or_default (chain addr1) ''mainnet'')
                   then Inr (warnedResponse\<lparr>warning := Some WARNING_NO_OPERATION_CHAIN\<rparr>)
                   else
                     case getBlockchainHeader (toVendorName env)
                            (or_default (chain addr1) ''mainnet'')
                            (or_default (coin addr) ''btc'') of
                       Inl e \<Rightarrow> Inl e
                     | Inr header \<Rightarrow>
                         (case request env
                                 \<lparr> baseURL = getBaseURL env,
                                   url = getBalanceURI (or_default (address addr) []),
                                   x_amberdata_blockchain_id = header \<rparr> of
                            Inl reason \<Rightarrow> Inl (RequestFailed reason)
                          | Inr d \<Rightarrow>
                              Inr \<lparr> bal_response = Some d,
                                    bal_result = with_balance addr2 (Payload_value d),
                                    warning = None \<rparr>))"

text \<open>
  \<^verbatim>\<open>Promise.all\<close>: the batch is rejected as soon as one item is. An item that throws does so
  before its first \<^verbatim>\<open>await\<close>, while the array is being mapped, so a thrown value rejects the
  batch before any HTTP failure can; between HTTP failures the list order stands for the
  order in time.
\<close>

fun first_thrown :: "(balance_error + 'a) list \<Rightarrow> balance_error option" where
  "first_thrown [] = None"
| "first_thrown (Inl (Thrown w) # rs) = Some (Thrown w)"
| "first_thrown (r # rs) = first_thrown rs"

fun gather :: "(balance_error + 'a) list \<Rightarrow> balance_error + 'a list" where
  "gather [] = Inr []"
| "gather (Inl e # rs) = Inl e"
| "gather (Inr x # rs) = (case gather rs of Inl e \<Rightarrow> Inl e | Inr xs \<Rightarrow> Inr (x # xs))"

definition promise_all :: "(balance_error + 'a) list \<Rightarrow> balance_error + 'a list" where
  "promise_all rs = (case first_thrown rs of Some e \<Rightarrow> Inl e | None \<Rightarrow> gather rs)"

definition getBalances :: "'d balance_env \<Rightarrow> Address list \<Rightarrow> balance_error + 'd ResponseWithResult list" where
  "getBalances env addresses = promise_all (map (getBalance env) addresses)"

section \<open>Concrete inputs\<close>

text \<open>
  The ICAP adapter's options, a key function, a transport with one subscription and its
  cache entry, and frames of the feed, for evaluating the definitions.
\<close>

definition icap_options :: generate_price_options where
  "icap_options = \<lparr> streamName = ''IC'', sourceName = ''icapSource'' \<rparr>"

definition example_settings :: adapter_settings where
  "example_settings =
     \<lparr> WS_API_ENDPOINT = ''wss://example'', WS_API_USERNAME = ''user'',
       WS_API_PASSWORD = ''pass'', CACHE_MAX_AGE = 90000 \<rparr>"

definition example_cache_key :: "cache_key_args \<Rightarrow> string" where
  "example_cache_key args =
     key_adapterName args @ ''-'' @ key_endpointName args @ ''-'' @ key_transportName args
       @ concat (map (\<lambda>(k, v). ''-'' @ k @ '':'' @ v) (key_data args))"

definition eur_usd :: params where
  "eur_usd = [(''base'', ''EUR''), (''quote'', ''USD''), (''icapSource'', ''GBL'')]"

definition gbp_usd :: params where
  "gbp_usd = [(''base'', ''GBP''), (''quote'', ''USD''), (''icapSource'', ''GBL'')]"

definition eur_usd_key :: string where
  "eur_usd_key = ''ICAP-price-ws-base:EUR-quote:USD-icapSource:GBL''"

definition gbp_usd_key :: string where
  "gbp_usd_key = ''ICAP-price-ws-base:GBP-quote:USD-icapSource:GBL''"

definition example_transport :: "rat transport" where
  "example_transport =
     \<lparr> name = ''ws'',
       subscriptionSet = [eur_usd, gbp_usd],
       responseCache =
         \<lparr> adapterName = ''ICAP'', endpointName = ''price'', adapterSettings = example_settings,
           cache = [eur_usd_key \<mapsto> \<lparr> entry_value = 11001 / 10000, entry_ttl = 10 \<rparr>] \<rparr> \<rparr>"

definition no_fvs :: ws_fvs where
  "no_fvs = \<lparr> CCY1 = None, CCY2 = None, ACTIV_DATE = None, TIMACT = None,
              BID = None, ASK = None, MID_PRICE = None \<rparr>"

definition sub_message :: "string \<Rightarrow> ws_fvs \<Rightarrow> ws_message" where
  "sub_message r f =
     \<lparr> msg = Some ''sub'', pro = None, rec = Some r, sta = Some 1, img = None, fvs = Some f \<rparr>"

definition heartbeat_rec :: string where
  "heartbeat_rec = ''HBHHH:GBL.BIL.QTE.RTM!IC''"

definition eur_usd_rec :: string where
  "eur_usd_rec = ''FXSPTEURUSDSPT:GBL.BIL.QTE.RTM!IC''"

definition eur_usd_tp_rec :: string where
  "eur_usd_tp_rec = ''FXSPTEURUSDSPT:GBL.BIL.QTE.RTM!TP''"

definition auth_ack :: ws_message where
  "auth_ack = \<lparr> msg = Some ''auth'', pro = None, rec = None, sta = Some 1, img = None, fvs = None \<rparr>"

definition auth_refused :: ws_message where
  "auth_refused = \<lparr> msg = Some ''auth'', pro = None, rec = None, sta = Some 0, img = None, fvs = None \<rparr>"

text \<open>An environment of the balance endpoint with two coins, answering every request.\<close>

definition example_env :: "string balance_env" where
  "example_env =
     \<lparr> isCoinType = (\<lambda>c. c = ''btc'' \<or> c = ''eth''),
       isChainType = (\<lambda>c. c = ''mainnet'' \<or> c = ''testnet''),
       toVendorName = (\<lambda>c. if c = ''btc'' then ''bitcoin'' else if c = ''eth'' then ''ethereum'' else c),
       getBaseURL = ''https://example'',
       request = (\<lambda>rq. Inr (x_amberdata_blockchain_id rq)) \<rparr>"

section \<open>Properties of the message handler\<close>

subsection \<open>The refresh pass\<close>

text \<open>
  What the cache holds under any key after the pass: the entries under the keys of the
  subscription set have the maximal age as their TTL, everything else is as it was.
\<close>

lemma setTTL_lookup:
  "setTTL c k t k' = (if k' = k then map_option (\<lambda>e. e\<lparr>entry_ttl := t\<rparr>) (c k) else c k')"
  by (simp add: setTTL_def split: option.splits)

lemma foldl_updateTTL_step_lookup:
  "foldl (updateTTL_step ck tr) c ps k =
     (if k \<in> updateTTL_key ck tr ` set ps
      then map_option (\<lambda>e. e\<lparr>entry_ttl := CACHE_MAX_AGE (adapterSettings (responseCache tr))\<rparr>) (c k)
      else c k)"
proof (induction ps arbitrary: c)
  case Nil
  show ?case by simp
next
  case (Cons p ps)
  have step: "updateTTL_step ck tr c p k' =
     (if k' = updateTTL_key ck tr p
      then map_option (\<lambda>e. e\<lparr>entry_ttl := CACHE_MAX_AGE (adapterSettings (responseCache tr))\<rparr>) (c k')
      else c k')" for k'
    by (simp add: updateTTL_step_def setTTL_lookup)
  have "foldl (updateTTL_step ck tr) c (p # ps) k
      = foldl (updateTTL_step ck tr) (updateTTL_step ck tr c p) ps k"
    by simp
  also have "\<dots> = (if k \<in> updateTTL_key ck tr ` set ps
      then map_option (\<lambda>e. e\<lparr>entry_ttl := CACHE_MAX_AGE (adapterSettings (responseCache tr))\<rparr>)
             (updateTTL_step ck tr c p k)
      else updateTTL_step ck tr c p k)"
    by (rule Cons.IH)
  finally show ?case
    by (simp add: step option.map_comp comp_def)
qed

lemma updateTTL_cache_lookup:
  "cache (responseCache (updateTTL ck tr)) k =
     (if k \<in> updateTTL_key ck tr ` set (subscriptionSet tr)
      then map_option (\<lambda>e. e\<lparr>entry_ttl := CACHE_MAX_AGE (adapterSettings (responseCache tr))\<rparr>)
             (cache (responseCache tr) k)
      else cache (responseCache tr) k)"
  by (simp add: updateTTL_def foldl_updateTTL_step_lookup)

text \<open>
  The key of a tuple is computed from the transport's name, the adapter's and the
  endpoint's name, the adapter settings and the tuple alone: neither the contents of the
  cache nor the rest of the subscription set enter it, and a refresh pass does not change it.
\<close>

lemma updateTTL_key_configuration:
  assumes "name tr = name tr'"
    and "adapterName (responseCache tr) = adapterName (responseCache tr')"
    and "endpointName (responseCache tr) = endpointName (responseCache tr')"
    and "adapterSettings (responseCache tr) = adapterSettings (responseCache tr')"
  shows "updateTTL_key ck tr p = updateTTL_key ck tr' p"
  using assms by (simp add: updateTTL_key_def)

lemma updateTTL_key_after_refresh:
  "updateTTL_key ck (updateTTL ck tr) p = updateTTL_key ck tr p"
  by (rule updateTTL_key_configuration) (simp_all add: updateTTL_def)

lemma str_includes_nonempty: "str_includes r (c # cs) \<Longrightarrow> r \<noteq> []"
  by (cases r) auto

lemma handle_sub_heartbeat:
  "str_includes r ''HBHHH'' \<Longrightarrow> slice 22 24 r = streamName opts \<Longrightarrow>
   handle_sub opts ck now est tr r f = Inr ([], updateTTL ck tr)"
  by (simp add: handle_sub_def)

subsection \<open>Guards\<close>

text \<open>
  C6. A frame that lacks the message-type field, or has type \<^verbatim>\<open>auth\<close>, or lacks the value
  fields \<^verbatim>\<open>fvs\<close> or the composite identifier \<^verbatim>\<open>rec\<close> (or carries an empty one), or whose
  status is not \<open>1\<close>, makes the handler return the empty result: no tick, no effect on the
  transport and its cache, and no error.
\<close>

theorem message_handler_guards:
  assumes "msg m = None \<or> msg m = Some ''auth'' \<or> fvs m = None \<or> rec m = None
           \<or> rec m = Some [] \<or> sta m \<noteq> Some 1"
  shows "message_handler opts ck now est tr m = Inr ([], tr)"
  using assms unfolding message_handler_def
  by (auto split: option.splits)

theorem message_handler_guards_witness:
  "message_handler icap_options example_cache_key 7 (Some 3) example_transport auth_ack
     = Inr ([], example_transport)
   \<and> message_handler icap_options example_cache_key 7 (Some 3) example_transport
       ((sub_message eur_usd_rec (no_fvs\<lparr>BID := Some 1, ASK := Some 3\<rparr>))\<lparr>sta := Some 0\<rparr>)
     = Inr ([], example_transport)"
  using message_handler_guards [of auth_ack icap_options example_cache_key 7 "Some 3"
          example_transport]
        message_handler_guards
          [of "(sub_message eur_usd_rec (no_fvs\<lparr>BID := Some 1, ASK := Some 3\<rparr>))\<lparr>sta := Some 0\<rparr>"
              icap_options example_cache_key 7 "Some 3" example_transport]
  by (simp add: auth_ack_def sub_message_def)

subsection \<open>Heartbeats\<close>

text \<open>
  C1. A heartbeat frame is a frame that has passed the guards of the handler (a message
  type other than \<^verbatim>\<open>auth\<close>, value fields, status \<open>1\<close>), whose composite identifier contains the
  marker \<^verbatim>\<open>HBHHH\<close> and whose stream code, the characters 22 and 23, is the configured stream
  name. On such a frame the handler emits no tick and runs the refresh pass: for every
  tuple of the subscription set, the cache entry under its key gets the configured maximal
  age as its TTL, and the value stored under every key of the cache is unchanged.
\<close>

theorem heartbeat_refreshes_registry:
  assumes "msg m = Some t" and "t \<noteq> ''auth''" and "fvs m = Some f" and "rec m = Some r"
    and "sta m = Some 1" and "str_includes r ''HBHHH''"
    and "slice 22 24 r = streamName opts"
  shows "message_handler opts ck now est tr m = Inr ([], updateTTL ck tr)
       \<and> (\<forall>p \<in> set (subscriptionSet tr). \<forall>e.
            cache (responseCache tr) (updateTTL_key ck tr p) = Some e \<longrightarrow>
            cache (responseCache (updateTTL ck tr)) (updateTTL_key ck tr p)
              = Some (e\<lparr>entry_ttl := CACHE_MAX_AGE (adapterSettings (responseCache tr))\<rparr>))
       \<and> (\<forall>k. map_option entry_value (cache (responseCache (updateTTL ck tr)) k)
              = map_option entry_value (cache (responseCache tr) k))"
proof -
  from assms(6) have "r \<noteq> []" by (rule str_includes_nonempty)
  with assms have "message_handler opts ck now est tr m = Inr ([], updateTTL ck tr)"
    by (simp add: message_handler_def handle_sub_heartbeat)
  moreover have "\<forall>p \<in> set (subscriptionSet tr). \<forall>e.
            cache (responseCache tr) (updateTTL_key ck tr p) = Some e \<longrightarrow>
            cache (responseCache (updateTTL ck tr)) (updateTTL_key ck tr p)
              = Some (e\<lparr>entry_ttl := CACHE_MAX_AGE (adapterSettings (responseCache tr))\<rparr>)"
    by (simp add: updateTTL_cache_lookup)
  moreover have "\<forall>k. map_option entry_value (cache (responseCache (updateTTL ck tr)) k)
              = map_option entry_value (cache (responseCache tr) k)"
    by (simp add: updateTTL_cache_lookup option.map_comp comp_def)
  ultimately show ?thesis by blast
qed

theorem heartbeat_refreshes_registry_witness:
  "message_handler icap_options example_cache_key 7 (Some 3) example_transport
       (sub_message heartbeat_rec no_fvs)
     = Inr ([], updateTTL example_cache_key example_transport)
   \<and> cache (responseCache (updateTTL example_cache_key example_transport)) eur_usd_key
     = Some \<lparr> entry_value = 11001 / 10000, entry_ttl = 90000 \<rparr>"
proof -
  have key: "updateTTL_key example_cache_key example_transport eur_usd = eur_usd_key"
    by (simp add: updateTTL_key_def example_cache_key_def example_transport_def eur_usd_def
          eur_usd_key_def)
  have entry: "cache (responseCache example_transport) eur_usd_key
                 = Some \<lparr> entry_value = 11001 / 10000, entry_ttl = 10 \<rparr>"
    by (simp add: example_transport_def)
  have max_age: "CACHE_MAX_AGE (adapterSettings (responseCache example_transport)) = 90000"
    by (simp add: example_transport_def example_settings_def)
  have sub: "eur_usd \<in> set (subscriptionSet example_transport)"
    by (simp add: example_transport_def)
  have marker: "str_includes heartbeat_rec ''HBHHH''"
    by (simp add: heartbeat_rec_def)
  have stream: "slice 22 24 heartbeat_rec = streamName icap_options"
    by (simp add: heartbeat_rec_def slice_def icap_options_def)
  have h: "message_handler icap_options example_cache_key 7 (Some 3) example_transport
             (sub_message heartbeat_rec no_fvs)
           = Inr ([], updateTTL example_cache_key example_transport)
         \<and> (\<forall>p \<in> set (subscriptionSet example_transport). \<forall>e.
              cache (responseCache example_transport)
                (updateTTL_key example_cache_key example_transport p) = Some e \<longrightarrow>
              cache (responseCache (updateTTL example_cache_key example_transport))
                (updateTTL_key example_cache_key example_transport p)
                = Some (e\<lparr>entry_ttl :=
                    CACHE_MAX_AGE (adapterSettings (responseCache example_transport))\<rparr>))"
    using heartbeat_refreshes_registry
      [where m = "sub_message heartbeat_rec no_fvs" and t = "''sub''" and f = no_fvs
         and r = heartbeat_rec and opts = icap_options and ck = example_cache_key
         and now = 7 and est = "Some 3" and tr = example_transport, OF _ _ _ _ _ marker stream]
    by (simp add: sub_message_def)
  then have "cache (responseCache (updateTTL example_cache_key example_transport)) eur_usd_key
     = Some (\<lparr> entry_value = 11001 / 10000, entry_ttl = 10 \<rparr>\<lparr>entry_ttl := 90000\<rparr>)"
    using sub key entry max_age by metis
  with h show ?thesis by simp
qed

text \<open>
  C7. The refresh pass creates no cache entry: for a tuple of the subscription set whose
  key has no entry, setting the TTL leaves the cache as it is, the key has no entry after
  the pass either, and the pass leaves the set of keys of the cache unchanged.
\<close>

theorem refresh_creates_no_entry:
  assumes "p \<in> set (subscriptionSet tr)"
    and "cache (responseCache tr) (updateTTL_key ck tr p) = None"
  shows "updateTTL_step ck tr (cache (responseCache tr)) p = cache (responseCache tr)
       \<and> cache (responseCache (updateTTL ck tr)) (updateTTL_key ck tr p) = None
       \<and> dom (cache (responseCache (updateTTL ck tr))) = dom (cache (responseCache tr))"
proof -
  have "updateTTL_step ck tr (cache (responseCache tr)) p = cache (responseCache tr)"
    using assms(2) by (simp add: updateTTL_step_def setTTL_def)
  moreover have "cache (responseCache (updateTTL ck tr)) (updateTTL_key ck tr p) = None"
    using assms by (simp add: updateTTL_cache_lookup)
  moreover have "dom (cache (responseCache (updateTTL ck tr))) = dom (cache (responseCache tr))"
    by (auto simp: updateTTL_cache_lookup dom_def split: if_splits)
  ultimately show ?thesis by blast
qed

theorem refresh_creates_no_entry_witness:
  "gbp_usd \<in> set (subscriptionSet example_transport)
   \<and> cache (responseCache example_transport) gbp_usd_key = None
   \<and> cache (responseCache (updateTTL example_cache_key example_transport)) gbp_usd_key = None"
proof -
  have key: "updateTTL_key example_cache_key example_transport gbp_usd = gbp_usd_key"
    by (simp add: updateTTL_key_def example_cache_key_def example_transport_def gbp_usd_def
          gbp_usd_key_def)
  have sub: "gbp_usd \<in> set (subscriptionSet example_transport)"
    by (simp add: example_transport_def)
  have entry: "cache (responseCache example_transport) gbp_usd_key = None"
    by (simp add: example_transport_def gbp_usd_key_def eur_usd_key_def)
  from refresh_creates_no_entry [of gbp_usd example_transport example_cache_key] sub entry key
  show ?thesis by simp
qed

subsection \<open>The stream filter\<close>

text \<open>
  C5. A message whose composite identifier does not contain the heartbeat marker and whose
  stream code, the characters 31 to 33, differs from the configured stream name yields no
  tick and leaves the transport, and with it the cache and every TTL, as it was.
\<close>

theorem stream_mismatch_ignored:
  assumes "rec m = Some r" and "\<not> str_includes r ''HBHHH''"
    and "slice 31 34 r \<noteq> streamName opts"
  shows "message_handler opts ck now est tr m = Inr ([], tr)"
  using assms
  by (simp add: message_handler_def handle_sub_def split: option.splits)

theorem stream_mismatch_ignored_witness:
  "\<not> str_includes eur_usd_tp_rec ''HBHHH''
   \<and> slice 31 34 eur_usd_tp_rec \<noteq> streamName icap_options
   \<and> message_handler icap_options example_cache_key 7 (Some 3) example_transport
       (sub_message eur_usd_tp_rec (no_fvs\<lparr>BID := Some 1, ASK := Some 3\<rparr>))
     = Inr ([], example_transport)"
proof -
  have marker: "\<not> str_includes eur_usd_tp_rec ''HBHHH''"
    by (simp add: eur_usd_tp_rec_def)
  have stream: "slice 31 34 eur_usd_tp_rec \<noteq> streamName icap_options"
    by (simp add: eur_usd_tp_rec_def slice_def icap_options_def)
  have "rec (sub_message eur_usd_tp_rec (no_fvs\<lparr>BID := Some 1, ASK := Some 3\<rparr>))
          = Some eur_usd_tp_rec"
    by (simp add: sub_message_def)
  from stream_mismatch_ignored [OF this marker stream] marker stream
  show ?thesis by simp
qed

subsection \<open>The result of a tick\<close>

text \<open>
  Past the stream filter, a midpoint other than zero is the result as it stands, and
  without a midpoint the result is computed from the bid and the ask (in the idealised
  arithmetic of \<open>decimal_midpoint\<close>).
\<close>

lemma nonzero_midpoint_verbatim:
  assumes "MID_PRICE f = Some m" and "m \<noteq> 0"
    and "\<not> (str_includes r ''HBHHH'' \<and> slice 22 24 r = streamName opts)"
    and "slice 31 34 r = streamName opts"
  shows "handle_sub opts ck now est tr r f = Inr ([price_tick opts now est r m], tr)"
  using assms by (simp add: handle_sub_def isNum_def)

lemma bid_ask_midpoint:
  assumes "MID_PRICE f = None" and "BID f = Some b" and "ASK f = Some a"
    and "\<not> (str_includes r ''HBHHH'' \<and> slice 22 24 r = streamName opts)"
    and "slice 31 34 r = streamName opts"
  shows "handle_sub opts ck now est tr r f = Inr ([price_tick opts now est r ((a + b) / 2)], tr)"
  using assms by (simp add: handle_sub_def isNum_def)

lemma eur_usd_rec_is_quote:
  "\<not> str_includes eur_usd_rec ''HBHHH''" "slice 31 34 eur_usd_rec = streamName icap_options"
  by (simp_all add: eur_usd_rec_def slice_def icap_options_def)

text \<open>
  C2, at the input on which the code departs from it. A midpoint of zero is present, and
  \<^verbatim>\<open>isNum\<close> accepts it, but \<^verbatim>\<open>MID_PRICE || ...\<close> takes it for missing: with a bid of 1 and an ask
  of 3 the tick's result is 2 and not the midpoint 0, and without bid and ask the decimal
  constructor throws.
\<close>

theorem zero_midpoint_falls_through:
  "message_handler icap_options ck now est tr
       (sub_message eur_usd_rec (no_fvs\<lparr>MID_PRICE := Some 0, BID := Some 1, ASK := Some 3\<rparr>))
     = Inr ([price_tick icap_options now est eur_usd_rec 2], tr)
   \<and> result (response (price_tick icap_options now est eur_usd_rec 2)) = 2
   \<and> message_handler icap_options ck now est tr
       (sub_message eur_usd_rec (no_fvs\<lparr>MID_PRICE := Some 0\<rparr>))
     = Inl DecimalError"
proof -
  have r: "eur_usd_rec \<noteq> []" by (simp add: eur_usd_rec_def)
  have "handle_sub icap_options ck now est tr eur_usd_rec
          (no_fvs\<lparr>MID_PRICE := Some 0, BID := Some 1, ASK := Some 3\<rparr>)
        = Inr ([price_tick icap_options now est eur_usd_rec 2], tr)"
    by (simp add: handle_sub_def eur_usd_rec_is_quote isNum_def no_fvs_def)
  moreover have "handle_sub icap_options ck now est tr eur_usd_rec (no_fvs\<lparr>MID_PRICE := Some 0\<rparr>)
        = Inl DecimalError"
    by (simp add: handle_sub_def eur_usd_rec_is_quote isNum_def no_fvs_def)
  moreover have "result (response (price_tick icap_options now est eur_usd_rec 2)) = 2"
    by (simp add: price_tick_def Let_def)
  ultimately show ?thesis
    using r by (simp add: message_handler_def sub_message_def)
qed

section \<open>Properties of the open handler\<close>

lemma open_run_snoc:
  "open_run st est (evs @ [ev]) = open_listener (open_run st est evs) ev"
  by (simp add: open_run_def)

lemma open_listener_ack:
  "is_auth_ack ev \<Longrightarrow>
   open_listener s ev = s\<lparr>establishedUnixMs := Some (fst ev), resolved := True\<rparr>"
  by (auto simp: is_auth_ack_def open_listener_def split: option.splits)

lemma open_listener_other: "\<not> is_auth_ack ev \<Longrightarrow> open_listener s ev = s"
  by (auto simp: is_auth_ack_def open_listener_def split: option.splits)

lemma open_run_pending:
  "\<forall>ev \<in> set evs. \<not> is_auth_ack ev \<Longrightarrow> open_run st est evs = open_handler st est"
proof (induction evs rule: rev_induct)
  case Nil
  show ?case by (simp add: open_run_def)
next
  case (snoc ev evs)
  then show ?case by (simp add: open_run_snoc open_listener_other)
qed

lemma open_run_resolved:
  "resolved (open_run st est evs) \<Longrightarrow>
   \<exists>ev \<in> set evs. is_auth_ack ev \<and> establishedUnixMs (open_run st est evs) = Some (fst ev)"
proof (induction evs rule: rev_induct)
  case Nil
  then show ?case by (simp add: open_run_def open_handler_def)
next
  case (snoc ev evs)
  show ?case
  proof (cases "is_auth_ack ev")
    case True
    then show ?thesis by (simp add: open_run_snoc open_listener_ack)
  next
    case False
    with snoc show ?thesis by (auto simp: open_run_snoc open_listener_other)
  qed
qed

lemma open_run_ack_resolves:
  "\<exists>ev \<in> set evs. is_auth_ack ev \<Longrightarrow> resolved (open_run st est evs)"
proof (induction evs rule: rev_induct)
  case Nil
  then show ?case by simp
next
  case (snoc ev evs)
  show ?case
  proof (cases "is_auth_ack ev")
    case True
    then show ?thesis by (simp add: open_run_snoc open_listener_ack)
  next
    case False
    with snoc show ?thesis by (auto simp: open_run_snoc open_listener_other)
  qed
qed

text \<open>
  C4. The open operation is resolved only by an auth-ack frame, one with type \<^verbatim>\<open>auth\<close> and
  status \<open>1\<close>: after any sequence of message events the promise is resolved exactly when one
  of them was an auth-ack, the stream-established timestamp is then the time of an auth-ack
  among them, and as long as none has arrived the promise is pending and the state is the
  one the open handler left.
\<close>

theorem open_resolves_only_on_auth_ack:
  "(resolved (open_run st est evs) \<longleftrightarrow> (\<exists>ev \<in> set evs. is_auth_ack ev))
   \<and> (resolved (open_run st est evs) \<longrightarrow>
        (\<exists>ev \<in> set evs. is_auth_ack ev
           \<and> establishedUnixMs (open_run st est evs) = Some (fst ev)))
   \<and> ((\<forall>ev \<in> set evs. \<not> is_auth_ack ev) \<longrightarrow>
        \<not> resolved (open_run st est evs) \<and> open_run st est evs = open_handler st est)"
proof -
  have "resolved (open_run st est evs) \<longleftrightarrow> (\<exists>ev \<in> set evs. is_auth_ack ev)"
    using open_run_resolved open_run_ack_resolves by blast
  moreover have "resolved (open_run st est evs) \<longrightarrow>
        (\<exists>ev \<in> set evs. is_auth_ack ev
           \<and> establishedUnixMs (open_run st est evs) = Some (fst ev))"
    using open_run_resolved by blast
  moreover have "(\<forall>ev \<in> set evs. \<not> is_auth_ack ev) \<longrightarrow>
        \<not> resolved (open_run st est evs) \<and> open_run st est evs = open_handler st est"
    by (simp add: open_run_pending open_handler_def)
  ultimately show ?thesis by blast
qed

theorem open_resolves_only_on_auth_ack_witness:
  "\<not> resolved (open_run example_settings None
        [(5, None), (6, Some auth_refused), (7, Some (sub_message heartbeat_rec no_fvs))])
   \<and> resolved (open_run example_settings None
        [(5, None), (6, Some auth_refused), (8, Some auth_ack)])
   \<and> establishedUnixMs (open_run example_settings None
        [(5, None), (6, Some auth_refused), (8, Some auth_ack)]) = Some 8"
proof -
  have pending: "\<forall>ev \<in> set [(5::nat, None), (6, Some auth_refused),
                     (7, Some (sub_message heartbeat_rec no_fvs))]. \<not> is_auth_ack ev"
    by (simp add: is_auth_ack_def auth_refused_def sub_message_def)
  have acked: "\<exists>ev \<in> set [(5::nat, None), (6, Some auth_refused), (8, Some auth_ack)].
                 is_auth_ack ev"
    by (simp add: is_auth_ack_def auth_ack_def)
  have only8: "\<And>ev. ev \<in> set [(5::nat, None), (6, Some auth_refused), (8, Some auth_ack)] \<Longrightarrow>
                 is_auth_ack ev \<Longrightarrow> fst ev = 8"
    by (auto simp: is_auth_ack_def auth_refused_def)
  from pending
    open_resolves_only_on_auth_ack [of example_settings None
      "[(5, None), (6, Some auth_refused), (7, Some (sub_message heartbeat_rec no_fvs))]"]
  have 1: "\<not> resolved (open_run example_settings None
        [(5, None), (6, Some auth_refused), (7, Some (sub_message heartbeat_rec no_fvs))])"
    by blast
  from acked
    open_resolves_only_on_auth_ack [of example_settings None
      "[(5, None), (6, Some auth_refused), (8, Some auth_ack)]"]
  have 2: "resolved (open_run example_settings None
        [(5, None), (6, Some auth_refused), (8, Some auth_ack)])"
    and "\<exists>ev \<in> set [(5::nat, None), (6, Some auth_refused), (8, Some auth_ack)]. is_auth_ack ev
           \<and> establishedUnixMs (open_run example_settings None
                [(5, None), (6, Some auth_refused), (8, Some auth_ack)]) = Some (fst ev)"
    by blast+
  with only8 have 3: "establishedUnixMs (open_run example_settings None
        [(5, None), (6, Some auth_refused), (8, Some auth_ack)]) = Some 8"
    by metis
  from 1 2 3 show ?thesis by blast
qed

section \<open>Properties of the balance endpoint\<close>

lemma getBalance_thrown:
  "getBalance env a = Inl (Thrown w) \<Longrightarrow> w = WARNING_NO_OPERATION_TESTNET"
  by (auto simp: getBalance_def getBlockchainHeader_def Let_def
           split: if_splits sum.splits)

lemma first_thrown_member:
  "Inl (Thrown w) \<in> set rs \<Longrightarrow> \<exists>w'. first_thrown rs = Some (Thrown w') \<and> Inl (Thrown w') \<in> set rs"
  by (induction rs rule: first_thrown.induct) auto

lemma getBalance_testnet:
  assumes "address a = Some s" and "s \<noteq> []"
    and "isCoinType env (or_default (coin a) ''btc'')"
    and "chain a = Some ''testnet''" and "isChainType env ''testnet''"
    and "toVendorName env (or_default (coin a) ''btc'') \<noteq> ''ethereum''"
  shows "getBalance env a = Inl (Thrown WARNING_NO_OPERATION_TESTNET)"
  using assms by (simp add: getBalance_def getBlockchainHeader_def Let_def)

text \<open>
  C9, at the input on which the code departs from it. An item with an address, a supported
  coin that is not on the ethereum network and the chain \<^verbatim>\<open>testnet\<close> makes
  \<^verbatim>\<open>getBlockchainHeader\<close> throw the testnet warning, and the whole batch is rejected with it,
  whatever the sibling items are.
\<close>

theorem testnet_item_rejects_batch:
  assumes "a \<in> set addresses" and "address a = Some s" and "s \<noteq> []"
    and "isCoinType env (or_default (coin a) ''btc'')"
    and "chain a = Some ''testnet''" and "isChainType env ''testnet''"
    and "toVendorName env (or_default (coin a) ''btc'') \<noteq> ''ethereum''"
  shows "getBalances env addresses = Inl (Thrown WARNING_NO_OPERATION_TESTNET)"
proof -
  have "getBalance env a = Inl (Thrown WARNING_NO_OPERATION_TESTNET)"
    using assms(2-7) by (rule getBalance_testnet)
  with assms(1) have "Inl (Thrown WARNING_NO_OPERATION_TESTNET) \<in> set (map (getBalance env) addresses)"
    by force
  then obtain w where w: "first_thrown (map (getBalance env) addresses) = Some (Thrown w)"
    and mem: "Inl (Thrown w) \<in> set (map (getBalance env) addresses)"
    using first_thrown_member by blast
  from mem obtain b where "getBalance env b = Inl (Thrown w)"
    by auto
  then have "w = WARNING_NO_OPERATION_TESTNET"
    by (rule getBalance_thrown)
  with w show ?thesis by (simp add: getBalances_def promise_all_def)
qed

theorem testnet_item_rejects_batch_witness:
  "getBalances example_env
     [\<lparr>address = Some ''a1'', coin = Some ''eth'', chain = Some ''mainnet''\<rparr>,
      \<lparr>address = Some ''a2'', coin = Some ''btc'', chain = Some ''testnet''\<rparr>]
   = Inl (Thrown WARNING_NO_OPERATION_TESTNET)"
  using testnet_item_rejects_batch [of "\<lparr>address = Some ''a2'', coin = Some ''btc'', chain = Some ''testnet''\<rparr>"
      "[\<lparr>address = Some ''a1'', coin = Some ''eth'', chain = Some ''mainnet''\<rparr>,
        \<lparr>address = Some ''a2'', coin = Some ''btc'', chain = Some ''testnet''\<rparr>]"
      "''a2''" example_env]
  by (simp add: example_env_def)

text \<open>
  C10. For an item with a non-empty address, supposing \<^verbatim>\<open>isCoinType\<close> accepts \<^verbatim>\<open>btc\<close> and
  \<^verbatim>\<open>isChainType\<close> accepts \<^verbatim>\<open>mainnet\<close>: when the coin and the chain are both missing the item is
  the lookup of that address on the mainnet of the network of \<^verbatim>\<open>btc\<close>, with no warning, and
  its result carries the coin \<^verbatim>\<open>btc\<close> and the chain \<^verbatim>\<open>mainnet\<close>; a missing coin alone is
  processed as the coin \<^verbatim>\<open>btc\<close> and a missing chain alone as the chain \<^verbatim>\<open>mainnet\<close>, whenever
  the field that is there passes its validation.
\<close>

theorem missing_coin_and_chain_default:
  assumes "address a = Some s" and "s \<noteq> []"
    and "isCoinType env ''btc''" and "isChainType env ''mainnet''"
  shows "(coin a = None \<and> chain a = None \<longrightarrow>
            getBalance env a =
              (case request env \<lparr> baseURL = getBaseURL env, url = getBalanceURI s,
                      x_amberdata_blockchain_id = toVendorName env ''btc'' @ ''-mainnet'' \<rparr> of
                 Inl reason \<Rightarrow> Inl (RequestFailed reason)
               | Inr d \<Rightarrow>
                   Inr \<lparr> bal_response = Some d,
                         bal_result = \<lparr> acc_address = Some s, acc_coin = Some ''btc'',
                                        acc_chain = Some ''mainnet'', balance = Payload_value d \<rparr>,
                         warning = None \<rparr>))
       \<and> (coin a = None \<and> isChainType env (or_default (chain a) ''mainnet'') \<longrightarrow>
            getBalance env a = getBalance env (a\<lparr>coin := Some ''btc''\<rparr>))
       \<and> (chain a = None \<and> isCoinType env (or_default (coin a) ''btc'') \<longrightarrow>
            getBalance env a = getBalance env (a\<lparr>chain := Some ''mainnet''\<rparr>))"
proof -
  have 1: "coin a = None \<and> chain a = None \<longrightarrow>
            getBalance env a =
              (case request env \<lparr> baseURL = getBaseURL env, url = getBalanceURI s,
                      x_amberdata_blockchain_id = toVendorName env ''btc'' @ ''-mainnet'' \<rparr> of
                 Inl reason \<Rightarrow> Inl (RequestFailed reason)
               | Inr d \<Rightarrow>
                   Inr \<lparr> bal_response = Some d,
                         bal_result = \<lparr> acc_address = Some s, acc_coin = Some ''btc'',
                                        acc_chain = Some ''mainnet'', balance = Payload_value d \<rparr>,
                         warning = None \<rparr>)"
    using assms
    by (simp add: getBalance_def getBlockchainHeader_def with_balance_def Let_def
             split: sum.splits)
  have 2: "coin a = None \<and> isChainType env (or_default (chain a) ''mainnet'') \<longrightarrow>
            getBalance env a = getBalance env (a\<lparr>coin := Some ''btc''\<rparr>)"
    using assms
    by (simp add: getBalance_def with_balance_def Let_def split: sum.splits)
  have 3: "chain a = None \<and> isCoinType env (or_default (coin a) ''btc'') \<longrightarrow>
            getBalance env a = getBalance env (a\<lparr>chain := Some ''mainnet''\<rparr>)"
    using assms
    by (simp add: getBalance_def with_balance_def Let_def split: sum.splits)
  from 1 2 3 show ?thesis by blast
qed

theorem missing_coin_and_chain_default_witness:
  "getBalance example_env \<lparr>address = Some ''a1'', coin = None, chain = None\<rparr>
   = Inr \<lparr> bal_response = Some ''bitcoin-mainnet'',
           bal_result = \<lparr> acc_address = Some ''a1'', acc_coin = Some ''btc'',
                          acc_chain = Some ''mainnet'',
                          balance = Payload_value ''bitcoin-mainnet'' \<rparr>,
           warning = None \<rparr>"
  using missing_coin_and_chain_default
    [of "\<lparr>address = Some ''a1'', coin = None, chain = None\<rparr>" "''a1''" example_env]
  by (simp add: example_env_def)

end
